theory Spec2Isabelle
  imports Complex_Main "HOL-Library.Word"
begin

section \<open>pick\_and\_place: manipulability\_measures.h\<close>

text \<open>
  \<^verbatim>\<open>Eigen::MatrixXd\<close> is a dynamically sized matrix of doubles, stored column-major:
  the coefficient at row \<open>r\<close>, column \<open>c\<close> lies at offset \<open>c * rows + r\<close> of the buffer.
  \<^verbatim>\<open>getVector\<close> only copies coefficients, so a double is modelled by a real.
\<close>

record MatrixXd =
  rows :: nat
  cols :: nat
  coeffs :: "real list"

definition storage_ok :: "MatrixXd \<Rightarrow> bool" where
  "storage_ok m = (length (coeffs m) = rows m * cols m)"

text \<open>The default constructor of a dynamic matrix: 0 rows, 0 columns, no storage.\<close>

definition MatrixXd_default :: MatrixXd where
  "MatrixXd_default = \<lparr>rows = 0, cols = 0, coeffs = []\<rparr>"

text \<open>
  \<^verbatim>\<open>operator()(Index row, Index col)\<close>: Eigen asserts
  \<^verbatim>\<open>row >= 0 && row < rows() && col >= 0 && col < cols()\<close>; with assertions
  compiled out the access is undefined behaviour. Both are the fault \<open>IndexOutOfRange\<close>.
  \<^verbatim>\<open>Index\<close> is a signed 64-bit integer.
\<close>

datatype fault = IndexOutOfRange

definition coeff :: "MatrixXd \<Rightarrow> int \<Rightarrow> int \<Rightarrow> fault + real" where
  "coeff m r c =
     (if 0 \<le> r \<and> r < int (rows m) \<and> 0 \<le> c \<and> c < int (cols m)
      then Inr (coeffs m ! nat (c * int (rows m) + r))
      else Inl IndexOutOfRange)"

text \<open>Column \<open>j\<close> of a matrix, read off the column-major buffer.\<close>

definition column :: "MatrixXd \<Rightarrow> nat \<Rightarrow> real list" where
  "column m j = take (rows m) (drop (j * rows m) (coeffs m))"

datatype Vector3d = Vector3d real real real

text \<open>
  \<^verbatim>\<open>
  struct ManipulabilityMeasures {
    Eigen::MatrixXd eigen_values;
    Eigen::MatrixXd eigen_vectors;
    Eigen::Vector3d getVector(std::size_t i) { ... }
    bool pass = false;
  };
  \<close>
\<close>

record ManipulabilityMeasures =
  eigen_values :: MatrixXd
  eigen_vectors :: MatrixXd
  pass :: bool

definition ManipulabilityMeasures_default :: ManipulabilityMeasures where
  "ManipulabilityMeasures_default =
     \<lparr>eigen_values = MatrixXd_default, eigen_vectors = MatrixXd_default, pass = False\<rparr>"

text \<open>
  \<^verbatim>\<open>getVector\<close> is a non-const member: it returns the vector together with the object
  it leaves behind. The argument is a \<^verbatim>\<open>std::size_t\<close> (64 bits, unsigned); passing it
  to \<^verbatim>\<open>operator()\<close> converts it to \<^verbatim>\<open>Index\<close>, which is \<open>sint\<close>. A fault in any of
  the three reads is the fault of the call.
\<close>

definition getVector ::
  "ManipulabilityMeasures \<Rightarrow> 64 word \<Rightarrow> fault + (Vector3d \<times> ManipulabilityMeasures)" where
  "getVector this i =
     (case coeff (eigen_vectors this) 0 (sint i) of
        Inl e \<Rightarrow> Inl e
      | Inr x \<Rightarrow>
          (case coeff (eigen_vectors this) 1 (sint i) of
             Inl e \<Rightarrow> Inl e
           | Inr y \<Rightarrow>
               (case coeff (eigen_vectors this) 2 (sint i) of
                  Inl e \<Rightarrow> Inl e
                | Inr z \<Rightarrow> Inr (Vector3d x y z, this))))"

text \<open>A 3-by-3 matrix with distinct entries, columns \<open>[1,2,3]\<close>, \<open>[4,5,6]\<close>, \<open>[7,8,9]\<close>.\<close>

definition sample_measures :: ManipulabilityMeasures where
  "sample_measures =
     \<lparr>eigen_values = \<lparr>rows = 3, cols = 1, coeffs = [1, 2, 3]\<rparr>,
      eigen_vectors = \<lparr>rows = 3, cols = 3, coeffs = [1, 2, 3, 4, 5, 6, 7, 8, 9]\<rparr>,
      pass = True\<rparr>"


section \<open>Messages and collaborators of the two nodes\<close>

text \<open>
  The two programs are straight-line drivers of robot middleware. Every call that leaves
  the program (logging, console, planning scene, planner, visualization, controllers) is
  an effect; a run of \<^verbatim>\<open>main\<close> is its exit status and the list of its effects in
  program order. What a collaborator returns is taken from an environment record, so every
  theorem holds for all answers of the collaborators. Library calls are taken to return.
\<close>

record PoseStamped =
  frame_id :: string
  position_x :: real
  position_y :: real
  position_z :: real
  orientation_w :: real
  orientation_x :: real
  orientation_y :: real
  orientation_z :: real

text \<open>
  \<^verbatim>\<open>moveit_msgs::Constraints\<close>: either what
  \<^verbatim>\<open>kinematic_constraints::constructGoalConstraints(link, pose, tol_pos, tol_angle)\<close>
  builds, kept by its arguments, or a goal handed over by a collaborator.
\<close>

datatype Constraints =
    GoalConstraints string PoseStamped "real list" "real list"
  | JointGoal "(string \<times> real) list"

record JointTrajectoryPoint =
  positions :: "real list"
  velocities :: "real list"
  accelerations :: "real list"
  effort :: "real list"

record RobotTrajectory =
  joint_names :: "string list"
  points :: "JointTrajectoryPoint list"

type_synonym RobotState = "real list"

text \<open>A default-constructed message has empty strings and sequences and zero numbers.\<close>

record MotionPlanRequest =
  start_state :: RobotState
  goal_constraints :: "Constraints list"
  planner_id :: string
  group_name :: string
  allowed_planning_time :: real
  max_velocity_scaling_factor :: real
  max_acceleration_scaling_factor :: real

definition MotionPlanRequest_default :: MotionPlanRequest where
  "MotionPlanRequest_default =
     \<lparr>start_state = [], goal_constraints = [], planner_id = [], group_name = [],
      allowed_planning_time = 0, max_velocity_scaling_factor = 0,
      max_acceleration_scaling_factor = 0\<rparr>"

text \<open>
  \<^verbatim>\<open>MotionPlanResponse\<close>: \<^verbatim>\<open>error_code_.val\<close> is an \<^verbatim>\<open>int32\<close>;
  \<^verbatim>\<open>moveit_msgs::MoveItErrorCodes::SUCCESS\<close> is 1. \<^verbatim>\<open>getMessage\<close> copies the
  response into its message form, which has the same fields here.
\<close>

record MotionPlanResponse =
  error_code_val :: "32 word"
  trajectory_start :: RobotState
  trajectory :: RobotTrajectory

definition SUCCESS :: "32 word" where
  "SUCCESS = 1"

definition getMessage :: "MotionPlanResponse \<Rightarrow> MotionPlanResponse" where
  "getMessage res = res"

text \<open>\<^verbatim>\<open>moveit_controller_manager::ExecutionStatus\<close> and its \<^verbatim>\<open>asString\<close>.\<close>

datatype ExecutionStatus = UNKNOWN | RUNNING | SUCCEEDED | PREEMPTED | TIMED_OUT | ABORTED | FAILED

fun asString :: "ExecutionStatus \<Rightarrow> string" where
  "asString RUNNING = ''RUNNING''"
| "asString SUCCEEDED = ''SUCCEEDED''"
| "asString PREEMPTED = ''PREEMPTED''"
| "asString TIMED_OUT = ''TIMED_OUT''"
| "asString ABORTED = ''ABORTED''"
| "asString FAILED = ''FAILED''"
| "asString UNKNOWN = ''UNKNOWN''"

text \<open>Arguments of a printf-style log call are kept beside the format string.\<close>

datatype arg = D int | S string

datatype effect =
    RosDebug string
  | RosInfo string "arg list"
  | RosError string "arg list"
  | Cout string
  | Getchar
  | StartSceneMonitor
  | StartWorldGeometryMonitor
  | StartStateMonitor
  | UpdateSceneWithCurrentState
  | PrintStatePositions
  | LockSceneRead
  | UnlockSceneRead
  | GeneratePlan MotionPlanRequest
  | DeleteAllMarkers
  | PublishDisplayTrajectory RobotState "RobotTrajectory list"
  | PublishTrajectoryLine RobotTrajectory
  | Trigger
  | GetActiveControllers
  | GetControllersList
  | Push RobotTrajectory
  | ExecuteAndWait
  | PlannerInit
  | SetCurToStartState
  | VisualizeGoalState "string list" "real list"
  | VisualizeObstacleMarker "real list list"
  | PromptUserInput
  | CreatePlanningContext MotionPlanRequest
  | SetPlanningContext
  | ChangePlanner
  | PlannerGeneratePlan
  | VisualizeTrajectory MotionPlanResponse string
  | PandaInit
  | MoveToDefaultPose
  | FollowJointVelocities "real list list"

type_synonym run = "int \<times> effect list"


section \<open>pick\_and\_place: pick\_and\_place\_node.cpp\<close>

type_synonym PlanningScene = nat

record ControllerManager =
  getActiveControllers :: "string list"
  getControllersList :: "string list"

text \<open>
  What the collaborators of \<^verbatim>\<open>pick_and_place_node\<close> answer: the scene seen under
  the read lock, the planning pipeline, the controller manager, the (ignored) result of
  \<^verbatim>\<open>push\<close> and the status \<^verbatim>\<open>executeAndWait\<close> returns.
\<close>

record pnp_env =
  locked_scene :: PlanningScene
  generatePlan :: "PlanningScene \<Rightarrow> MotionPlanRequest \<Rightarrow> MotionPlanResponse"
  controller_manager :: ControllerManager
  push_accepted :: bool
  executeAndWait :: ExecutionStatus

text \<open>
  \<^verbatim>\<open>
  void printControllers(const MoveItControllerManagerPtr& controller_manager) {
    controller_manager->getActiveControllers(active_controllers);
    controller_manager->getControllersList(known_controllers);
    ROS_INFO_NAMED(LOGNAME, "Active controllers: %ld", active_controllers.size());
    for (auto controller : active_controllers) std::cout << controller << ", " << std::endl;
    ROS_INFO_NAMED(LOGNAME, "Known controllers: %ld", known_controllers.size());
    for (auto controller : known_controllers) std::cout << controller << ", " << std::endl;
  }
  \<close>
\<close>

definition printControllers :: "ControllerManager \<Rightarrow> effect list" where
  "printControllers cm =
     (let active_controllers = getActiveControllers cm;
          known_controllers = getControllersList cm
      in [GetActiveControllers, GetControllersList,
          RosInfo ''Active controllers: %ld'' [D (int (length active_controllers))]]
         @ map (\<lambda>controller. Cout (controller @ '', '' @ [CHR 0x0A])) active_controllers
         @ [RosInfo ''Known controllers: %ld'' [D (int (length known_controllers))]]
         @ map (\<lambda>controller. Cout (controller @ '', '' @ [CHR 0x0A])) known_controllers)"

definition promptAnyInput :: "effect list" where
  "promptAnyInput = [Cout [CHR 0x0A], Cout ''Press any key to continue: '', Getchar]"

text \<open>Lines 111 to 181 of \<^verbatim>\<open>main\<close>: the monitors are started and the state printed.\<close>

definition pnp_initialization :: "effect list" where
  "pnp_initialization =
     [RosDebug ''Start!'', StartSceneMonitor, StartWorldGeometryMonitor, StartStateMonitor,
      UpdateSceneWithCurrentState, PrintStatePositions]"

text \<open>Lines 203 to 225: the pose goal and the request.\<close>

definition pnp_pose :: PoseStamped where
  "pnp_pose =
     \<lparr>frame_id = ''panda_link0'', position_x = 0.5, position_y = 0.0, position_z = 0.75,
      orientation_w = 1.0, orientation_x = 0.0, orientation_y = 0.0, orientation_z = 0.0\<rparr>"

definition pnp_request :: MotionPlanRequest where
  "pnp_request =
     (let group_name_const = ''panda_arm'';
          tolerance_pose = replicate 3 0.01;
          tolerance_angle = replicate 3 0.01;
          req = MotionPlanRequest_default;
          req = req\<lparr>group_name := group_name_const\<rparr>;
          req = req\<lparr>allowed_planning_time := 5.0\<rparr>;
          req = req\<lparr>planner_id := ''panda_arm[EST]''\<rparr>;
          pose_goal = GoalConstraints ''panda_link8'' pnp_pose tolerance_pose tolerance_angle
      in req\<lparr>goal_constraints := goal_constraints req @ [pose_goal]\<rparr>)"

text \<open>
  Lines 229 to 233: the scope that owns the \<^verbatim>\<open>LockedPlanningSceneRO\<close>. Its constructor
  takes the read lock of the planning scene monitor, its destructor at the closing brace
  gives it back.
\<close>

definition pnp_plan_scope :: "pnp_env \<Rightarrow> MotionPlanRequest \<Rightarrow> MotionPlanResponse \<times> effect list" where
  "pnp_plan_scope env req =
     (generatePlan env (locked_scene env) req, [LockSceneRead, GeneratePlan req, UnlockSceneRead])"

text \<open>Lines 241 to 267: the trajectory is shown.\<close>

definition pnp_visualize :: "MotionPlanResponse \<Rightarrow> effect list" where
  "pnp_visualize response =
     (let display_trajectory = [trajectory response]
      in [DeleteAllMarkers, RosInfo ''Visualizing the trajectory'' [],
          PublishDisplayTrajectory (trajectory_start response) display_trajectory,
          PublishTrajectoryLine (last display_trajectory), Trigger])"

text \<open>Lines 269 to 290: the trajectory is executed. The result of \<^verbatim>\<open>push\<close> is dropped.\<close>

definition pnp_execute :: "pnp_env \<Rightarrow> MotionPlanResponse \<Rightarrow> effect list" where
  "pnp_execute env response =
     (let robot_trajectory = trajectory response;
          status = executeAndWait env
      in printControllers (controller_manager env)
         @ [Push robot_trajectory, ExecuteAndWait,
            RosInfo ''Status: %s'' [S (asString status)]])"

definition pnp_main :: "pnp_env \<Rightarrow> run" where
  "pnp_main env =
     (let req = pnp_request;
          (res, planning) = pnp_plan_scope env req
      in if error_code_val res \<noteq> SUCCESS
         then (0, pnp_initialization @ planning
                  @ [RosError ''Could not compute plan successfully'' []])
         else (let response = getMessage res
               in (0, pnp_initialization @ planning @ pnp_visualize response
                      @ pnp_execute env response @ promptAnyInput
                      @ [Cout (''Finished!'' @ [CHR 0x0A])])))"


section \<open>tacbot: plan\_and\_execute.cpp\<close>

text \<open>
  The planner, the context, the visualizer and the utilities of \<^verbatim>\<open>tacbot\<close> are
  collaborators: what they return is in the environment. \<^verbatim>\<open>setCurToStartState\<close>
  receives the request by reference; the planner plans for the request the context was
  created with, and leaves its raw answer in \<^verbatim>\<open>raw_plan_resp_\<close>.
\<close>

record tac_env =
  setCurToStartState :: "MotionPlanRequest \<Rightarrow> MotionPlanRequest"
  createJointGoal :: Constraints
  getJointNames :: "string list"
  getJointGoalPos :: "real list"
  getObstaclePos :: "real list list"
  promptUserInput :: bool
  getGroupName :: string
  getPlannerId :: string
  planner_generatePlan :: "MotionPlanRequest \<Rightarrow> MotionPlanResponse"
  raw_plan_resp :: "MotionPlanRequest \<Rightarrow> MotionPlanResponse"
  toControlTrajectory :: "MotionPlanResponse \<Rightarrow> real list list"

text \<open>Lines 18 to 47: set-up, start state, joint goal, goal and obstacle markers.\<close>

definition tac_goal_request :: "tac_env \<Rightarrow> MotionPlanRequest" where
  "tac_goal_request env =
     (let req = MotionPlanRequest_default;
          req = setCurToStartState env req;
          goal = createJointGoal env
      in req\<lparr>goal_constraints := goal_constraints req @ [goal]\<rparr>)"

definition tac_preparation :: "tac_env \<Rightarrow> effect list" where
  "tac_preparation env =
     [RosInfo ''Start!'' [], RosInfo ''planner->init()'' [], PlannerInit,
      RosInfo ''planner->getVisualizerData()'' [], RosInfo ''MyMoveitContext()'' [],
      RosInfo ''setCurToStartState'' [], SetCurToStartState,
      RosInfo ''createJointGoal'' [],
      RosInfo ''visualizeGoalState'' [],
      VisualizeGoalState (getJointNames env) (getJointGoalPos env),
      RosInfo ''visualizeObstacleMarker'' [],
      VisualizeObstacleMarker (getObstaclePos env),
      PromptUserInput]"

text \<open>Lines 53 to 57: the remaining fields of the request.\<close>

definition tac_request :: "tac_env \<Rightarrow> MotionPlanRequest" where
  "tac_request env =
     (let req = tac_goal_request env;
          req = req\<lparr>group_name := getGroupName env\<rparr>;
          req = req\<lparr>allowed_planning_time := 10.0\<rparr>;
          req = req\<lparr>planner_id := getPlannerId env\<rparr>;
          req = req\<lparr>max_acceleration_scaling_factor := 0.5\<rparr>
      in req\<lparr>max_velocity_scaling_factor := 0.5\<rparr>)"

text \<open>Lines 59 to 69: the context is created for the request and the planner runs.\<close>

definition tac_planning :: "MotionPlanRequest \<Rightarrow> effect list" where
  "tac_planning req =
     [RosInfo ''createPlanningContext'' [], CreatePlanningContext req,
      RosInfo ''setPlanningContext'' [], SetPlanningContext,
      RosInfo ''planner->changePlanner()'' [], ChangePlanner,
      RosInfo ''generatePlan'' [], PlannerGeneratePlan]"

text \<open>
  Lines 85 to 99: \<^verbatim>\<open>bool execute_trajectory = false; if (execute_trajectory == true) {...}\<close>.
\<close>

definition tac_execution :: "tac_env \<Rightarrow> MotionPlanResponse \<Rightarrow> effect list" where
  "tac_execution env res =
     (let execute_trajectory = False
      in if execute_trajectory = True
         then (let traj_msg = getMessage res;
                   joint_velocities = toControlTrajectory env traj_msg
               in [PandaInit, MoveToDefaultPose, FollowJointVelocities joint_velocities])
         else [])"

definition tac_main :: "tac_env \<Rightarrow> run" where
  "tac_main env =
     (let status = promptUserInput env
      in if \<not> status then (0, tac_preparation env)
         else
           (let req = tac_request env;
                res = planner_generatePlan env req
            in if error_code_val res \<noteq> SUCCESS
               then (1, tac_preparation env @ tac_planning req
                        @ [RosError ''Could not compute plan successfully. Error code: %d''
                             [D (sint (error_code_val res))]])
               else
                 (let msg = getMessage res
                  in (0, tac_preparation env @ tac_planning req
                         @ [VisualizeTrajectory msg ''planned_path'',
                            VisualizeTrajectory (raw_plan_resp env req) ''raw_path'',
                            PromptUserInput]
                         @ tac_execution env res
                         @ [Cout (''Finished!'' @ [CHR 0x0A])]))))"


section \<open>Observations on runs\<close>

text \<open>
  Replaying a run against the read lock of the planning scene: \<open>held_after n es\<close> is the
  number of read locks held after the effects \<open>es\<close>, starting from \<open>n\<close>.
\<close>

primrec held_after :: "nat \<Rightarrow> effect list \<Rightarrow> nat" where
  "held_after n [] = n"
| "held_after n (e # es) =
     held_after (case e of LockSceneRead \<Rightarrow> Suc n | UnlockSceneRead \<Rightarrow> n - 1 | _ \<Rightarrow> n) es"

text \<open>
  \<open>lock_scoped n es\<close>: in \<open>es\<close>, started with \<open>n\<close> read locks held, the planner is only
  invoked under the lock, a lock is only given back when held, every other effect happens
  with no lock held, and no lock is held at the end.
\<close>

primrec lock_scoped :: "nat \<Rightarrow> effect list \<Rightarrow> bool" where
  "lock_scoped n [] = (n = 0)"
| "lock_scoped n (e # es) =
     (case e of
        LockSceneRead \<Rightarrow> lock_scoped (Suc n) es
      | UnlockSceneRead \<Rightarrow> 0 < n \<and> lock_scoped (n - 1) es
      | GeneratePlan req \<Rightarrow> 0 < n \<and> lock_scoped n es
      | _ \<Rightarrow> n = 0 \<and> lock_scoped n es)"

definition is_console :: "effect \<Rightarrow> bool" where
  "is_console e =
     (case e of RosDebug s \<Rightarrow> True | RosInfo s a \<Rightarrow> True | RosError s a \<Rightarrow> True
      | Cout s \<Rightarrow> True | Getchar \<Rightarrow> True | _ \<Rightarrow> False)"

definition is_lock :: "effect \<Rightarrow> bool" where
  "is_lock e = (case e of LockSceneRead \<Rightarrow> True | UnlockSceneRead \<Rightarrow> True | _ \<Rightarrow> False)"

definition is_planning :: "effect \<Rightarrow> bool" where
  "is_planning e =
     (case e of GeneratePlan r \<Rightarrow> True | CreatePlanningContext r \<Rightarrow> True
      | PlannerGeneratePlan \<Rightarrow> True | _ \<Rightarrow> False)"

definition is_visualization :: "effect \<Rightarrow> bool" where
  "is_visualization e =
     (case e of DeleteAllMarkers \<Rightarrow> True | PublishDisplayTrajectory s t \<Rightarrow> True
      | PublishTrajectoryLine t \<Rightarrow> True | Trigger \<Rightarrow> True
      | VisualizeGoalState n p \<Rightarrow> True | VisualizeObstacleMarker p \<Rightarrow> True
      | VisualizeTrajectory r l \<Rightarrow> True | _ \<Rightarrow> False)"

definition is_trajectory_display :: "effect \<Rightarrow> bool" where
  "is_trajectory_display e =
     (case e of PublishDisplayTrajectory s t \<Rightarrow> True | PublishTrajectoryLine t \<Rightarrow> True
      | VisualizeTrajectory r l \<Rightarrow> True | _ \<Rightarrow> False)"

definition is_execution :: "effect \<Rightarrow> bool" where
  "is_execution e =
     (case e of Push t \<Rightarrow> True | ExecuteAndWait \<Rightarrow> True | PandaInit \<Rightarrow> True
      | MoveToDefaultPose \<Rightarrow> True | FollowJointVelocities v \<Rightarrow> True | _ \<Rightarrow> False)"

definition is_controller_query :: "effect \<Rightarrow> bool" where
  "is_controller_query e =
     (case e of GetActiveControllers \<Rightarrow> True | GetControllersList \<Rightarrow> True | _ \<Rightarrow> False)"

definition is_error_report :: "effect \<Rightarrow> bool" where
  "is_error_report e = (case e of RosError f a \<Rightarrow> True | _ \<Rightarrow> False)"

definition is_status_report :: "effect \<Rightarrow> bool" where
  "is_status_report e = (case e of RosInfo f a \<Rightarrow> f = ''Status: %s'' | _ \<Rightarrow> False)"

text \<open>
  The progress of one execution as the program drives it: it is pending until a trajectory
  is handed to the backend by an accepted \<^verbatim>\<open>push\<close>, running from then on, and terminal
  once \<^verbatim>\<open>executeAndWait\<close> comes back with a status other than \<open>UNKNOWN\<close> and
  \<open>RUNNING\<close>. The effects of a run do not hold the answers of the backend, so the replay
  takes them beside the run: whether \<^verbatim>\<open>push\<close> was accepted and which status
  \<^verbatim>\<open>executeAndWait\<close> returned. \<open>execution_phases\<close> lists the phases in the order the
  run goes through them.
\<close>

definition is_terminal :: "ExecutionStatus \<Rightarrow> bool" where
  "is_terminal s = (case s of UNKNOWN \<Rightarrow> False | RUNNING \<Rightarrow> False | _ \<Rightarrow> True)"

datatype phase = PhasePending | PhaseRunning | PhaseTerminal ExecutionStatus

primrec phases_from :: "bool \<Rightarrow> ExecutionStatus \<Rightarrow> phase \<Rightarrow> effect list \<Rightarrow> phase list" where
  "phases_from accepted status p [] = []"
| "phases_from accepted status p (e # es) =
     (case e of
        Push t \<Rightarrow>
          (if accepted \<and> p = PhasePending
           then PhaseRunning # phases_from accepted status PhaseRunning es
           else phases_from accepted status p es)
      | ExecuteAndWait \<Rightarrow>
          (if p = PhaseRunning \<and> is_terminal status
           then PhaseTerminal status # phases_from accepted status (PhaseTerminal status) es
           else phases_from accepted status p es)
      | _ \<Rightarrow> phases_from accepted status p es)"

definition execution_phases :: "bool \<Rightarrow> ExecutionStatus \<Rightarrow> effect list \<Rightarrow> phase list" where
  "execution_phases accepted status es = PhasePending # phases_from accepted status PhasePending es"

text \<open>The phases of a run of \<^verbatim>\<open>pick_and_place_node\<close>, with the answers its backend gave.\<close>

definition pnp_execution_phases :: "pnp_env \<Rightarrow> phase list" where
  "pnp_execution_phases env =
     execution_phases (push_accepted env) (executeAndWait env) (snd (pnp_main env))"

text \<open>
  A request that carries a group name, a goal, a planner identifier, a positive time
  budget and both scaling factors (the valid range of a scaling factor starts above 0;
  0 is the value of a field that was never assigned).
\<close>

definition carries_all :: "MotionPlanRequest \<Rightarrow> bool" where
  "carries_all r =
     (group_name r \<noteq> [] \<and> goal_constraints r \<noteq> [] \<and> planner_id r \<noteq> [] \<and>
      0 < allowed_planning_time r \<and> 0 < max_velocity_scaling_factor r \<and>
      0 < max_acceleration_scaling_factor r)"

text \<open>The requests a run hands to planning, in order.\<close>

primrec requests_planned :: "effect list \<Rightarrow> MotionPlanRequest list" where
  "requests_planned [] = []"
| "requests_planned (e # es) =
     (case e of GeneratePlan r \<Rightarrow> [r] | CreatePlanningContext r \<Rightarrow> [r] | _ \<Rightarrow> [])
     @ requests_planned es"


section \<open>Sample collaborators\<close>

definition sample_trajectory :: RobotTrajectory where
  "sample_trajectory =
     \<lparr>joint_names = [''panda_joint1'', ''panda_joint2''],
      points = [\<lparr>positions = [0, 0], velocities = [0, 0], accelerations = [0, 0], effort = []\<rparr>,
                \<lparr>positions = [0.5, 0.25], velocities = [0, 0], accelerations = [0, 0], effort = []\<rparr>]\<rparr>"

definition sample_response :: "32 word \<Rightarrow> MotionPlanResponse" where
  "sample_response code =
     \<lparr>error_code_val = code, trajectory_start = [0, 0], trajectory = sample_trajectory\<rparr>"

definition sample_pnp_env :: "32 word \<Rightarrow> pnp_env" where
  "sample_pnp_env code =
     \<lparr>locked_scene = 1,
      generatePlan = (\<lambda>scene req. sample_response code),
      controller_manager =
        \<lparr>getActiveControllers = [''arm''], getControllersList = [''arm'', ''hand'']\<rparr>,
      push_accepted = True,
      executeAndWait = SUCCEEDED\<rparr>"

definition sample_tac_env :: "bool \<Rightarrow> 32 word \<Rightarrow> tac_env" where
  "sample_tac_env answer code =
     \<lparr>setCurToStartState = (\<lambda>req. req\<lparr>start_state := [0, 0]\<rparr>),
      createJointGoal = JointGoal [(''panda_joint1'', 0.5), (''panda_joint2'', 0.25)],
      getJointNames = [''panda_joint1'', ''panda_joint2''],
      getJointGoalPos = [0.5, 0.25],
      getObstaclePos = [[1, 0, 0]],
      promptUserInput = answer,
      getGroupName = ''panda_arm'',
      getPlannerId = ''panda_arm[RRT]'',
      planner_generatePlan = (\<lambda>req. sample_response code),
      raw_plan_resp = (\<lambda>req. sample_response code),
      toControlTrajectory = (\<lambda>msg. map positions (points (trajectory msg)))\<rparr>"


section \<open>Properties of getVector\<close>

lemma sint_of_small:
  assumes "uint (i :: 64 word) < 2 ^ 63"
  shows "sint i = uint i"
proof -
  have "- (2 ^ 63) \<le> uint i"
    by (rule order_trans [of _ 0]) simp_all
  then have "signed_take_bit 63 (uint i) = uint i"
    using assms by (rule signed_take_bit_int_eq_self)
  then show ?thesis by (simp add: sint_uint)
qed

lemma uint_of_nonneg:
  assumes "0 \<le> sint (i :: 64 word)"
  shows "uint i = sint i"
proof -
  have "sint i < 2 ^ 64"
    by (rule less_trans [OF sint_lt]) simp
  with assms have "take_bit 64 (sint i) = sint i"
    by (simp only: take_bit_int_eq_self)
  then show ?thesis using uint_sint [of i] by simp
qed

lemma column_nth:
  assumes "storage_ok m" "j < cols m" "r < rows m"
  shows "column m j ! r = coeffs m ! (j * rows m + r)"
proof -
  have "j * rows m + rows m \<le> rows m * cols m"
  proof -
    have "Suc j \<le> cols m" using assms(2) by simp
    then have "rows m * Suc j \<le> rows m * cols m" by (rule mult_le_mono2)
    then show ?thesis by (simp add: mult.commute)
  qed
  then have "j * rows m + r < length (coeffs m)"
    using assms(1,3) by (simp add: storage_ok_def)
  then show ?thesis using assms(3) by (simp add: column_def)
qed

lemma coeff_ok:
  "r < rows m \<Longrightarrow> c < cols m \<Longrightarrow> coeff m (int r) (int c) = Inr (coeffs m ! (c * rows m + r))"
  by (simp add: coeff_def nat_add_distrib nat_mult_distrib flip: of_nat_mult of_nat_add)

lemma getVector_Inr_iff:
  "(\<exists>r. getVector m i = Inr r) \<longleftrightarrow>
     3 \<le> rows (eigen_vectors m) \<and> 0 \<le> sint i \<and> sint i < int (cols (eigen_vectors m))"
  by (auto simp: getVector_def coeff_def split: sum.splits)

text \<open>
  Claim C6. When \<open>eigen_vectors\<close> has at least 3 rows and more than \<open>i\<close> columns,
  \<open>getVector i\<close> for \<open>i\<close> in 0..2 returns the entries at rows 0, 1, 2 of column \<open>i\<close>,
  in that order, and leaves the object as it was.
\<close>

theorem getVector_returns_column:
  assumes "storage_ok (eigen_vectors m)"
      and "3 \<le> rows (eigen_vectors m)"
      and "i \<le> 2"
      and "unat i < cols (eigen_vectors m)"
  shows "getVector m i =
           Inr (Vector3d (column (eigen_vectors m) (unat i) ! 0)
                         (column (eigen_vectors m) (unat i) ! 1)
                         (column (eigen_vectors m) (unat i) ! 2), m)"
proof -
  let ?V = "eigen_vectors m"
  from assms(3) have "uint i \<le> 2" by (simp add: word_le_def)
  then have "uint i < 2 ^ 63" by simp
  then have si: "sint i = int (unat i)" by (simp add: sint_of_small)
  have r: "0 < rows ?V" "1 < rows ?V" "2 < rows ?V" using assms(2) by simp_all
  have c0: "coeff ?V 0 (sint i) = Inr (column ?V (unat i) ! 0)"
    using coeff_ok [OF r(1) assms(4)] column_nth [OF assms(1) assms(4) r(1)] si by simp
  have c1: "coeff ?V 1 (sint i) = Inr (column ?V (unat i) ! 1)"
    using coeff_ok [OF r(2) assms(4)] column_nth [OF assms(1) assms(4) r(2)] si by simp
  have c2: "coeff ?V 2 (sint i) = Inr (column ?V (unat i) ! 2)"
    using coeff_ok [OF r(3) assms(4)] column_nth [OF assms(1) assms(4) r(3)] si by simp
  show ?thesis by (simp add: getVector_def c0 c1 c2)
qed

theorem getVector_returns_column_witness:
  "storage_ok (eigen_vectors sample_measures) \<and> 3 \<le> rows (eigen_vectors sample_measures) \<and>
   (1 :: 64 word) \<le> 2 \<and> unat (1 :: 64 word) < cols (eigen_vectors sample_measures) \<and>
   getVector sample_measures 1 = Inr (Vector3d 4 5 6, sample_measures)"
proof -
  have a: "storage_ok (eigen_vectors sample_measures)"
    by (simp add: storage_ok_def sample_measures_def)
  have b: "3 \<le> rows (eigen_vectors sample_measures)" by (simp add: sample_measures_def)
  have c: "(1 :: 64 word) \<le> 2" by simp
  have d: "unat (1 :: 64 word) < cols (eigen_vectors sample_measures)"
    by (simp add: sample_measures_def)
  have "column (eigen_vectors sample_measures) (unat (1 :: 64 word)) = [4, 5, 6]"
    by (simp add: column_def sample_measures_def)
  with getVector_returns_column [OF a b c d] a b c d show ?thesis by simp
qed

text \<open>
  Claim C7. \<open>getVector\<close> has no check of its own: the call yields a vector exactly
  when \<open>eigen_vectors\<close> has at least 3 rows and at least \<open>i + 1\<close> columns, and is an
  out-of-range access otherwise. A default-constructed value has two 0-by-0 matrices and
  \<open>pass = false\<close>, and every \<open>getVector\<close> call on it is out of range. (Column counts
  are below \<open>2^63\<close>, the range of \<^verbatim>\<open>Eigen::Index\<close>.)
\<close>

theorem getVector_unchecked:
  assumes "cols (eigen_vectors m) < 2 ^ 63"
  shows "((\<exists>r. getVector m i = Inr r) \<longleftrightarrow>
            3 \<le> rows (eigen_vectors m) \<and> unat i + 1 \<le> cols (eigen_vectors m)) \<and>
         ((\<nexists>r. getVector m i = Inr r) \<longleftrightarrow> getVector m i = Inl IndexOutOfRange) \<and>
         rows (eigen_values ManipulabilityMeasures_default) = 0 \<and>
         cols (eigen_values ManipulabilityMeasures_default) = 0 \<and>
         rows (eigen_vectors ManipulabilityMeasures_default) = 0 \<and>
         cols (eigen_vectors ManipulabilityMeasures_default) = 0 \<and>
         pass ManipulabilityMeasures_default = False \<and>
         getVector ManipulabilityMeasures_default j = Inl IndexOutOfRange"
proof -
  let ?V = "eigen_vectors m"
  have "(0 \<le> sint i \<and> sint i < int (cols ?V)) \<longleftrightarrow> unat i + 1 \<le> cols ?V"
  proof
    assume h: "0 \<le> sint i \<and> sint i < int (cols ?V)"
    then have "uint i = sint i" by (simp add: uint_of_nonneg)
    with h have "uint i < int (cols ?V)" by simp
    then have "int (unat i) < int (cols ?V)" by (simp only: uint_nat)
    then have "unat i < cols ?V" by (simp only: of_nat_less_iff)
    then show "unat i + 1 \<le> cols ?V" by simp
  next
    assume h: "unat i + 1 \<le> cols ?V"
    then have "unat i < cols ?V" by simp
    then have "int (unat i) < int (cols ?V)" by (simp only: of_nat_less_iff)
    then have u: "uint i < int (cols ?V)" by (simp only: uint_nat)
    also have "\<dots> < 2 ^ 63" using assms by simp
    finally have "sint i = uint i" by (rule sint_of_small)
    with u show "0 \<le> sint i \<and> sint i < int (cols ?V)" by simp
  qed
  then have 1: "(\<exists>r. getVector m i = Inr r) \<longleftrightarrow> 3 \<le> rows ?V \<and> unat i + 1 \<le> cols ?V"
    by (simp only: getVector_Inr_iff)
  have 2: "(\<nexists>r. getVector m i = Inr r) \<longleftrightarrow> getVector m i = Inl IndexOutOfRange"
    by (cases "getVector m i") (auto intro: fault.exhaust)
  have 3: "getVector ManipulabilityMeasures_default j = Inl IndexOutOfRange"
    by (simp add: getVector_def coeff_def ManipulabilityMeasures_default_def MatrixXd_default_def)
  show ?thesis using 1 2 3
    by (simp add: ManipulabilityMeasures_default_def MatrixXd_default_def)
qed

theorem getVector_unchecked_witness:
  "cols (eigen_vectors sample_measures) < 2 ^ 63 \<and>
   (\<exists>r. getVector sample_measures 2 = Inr r) \<and>
   getVector sample_measures 3 = Inl IndexOutOfRange \<and>
   getVector ManipulabilityMeasures_default 0 = Inl IndexOutOfRange"
proof -
  have a: "cols (eigen_vectors sample_measures) < 2 ^ 63" by (simp add: sample_measures_def)
  have b: "3 \<le> rows (eigen_vectors sample_measures) \<and>
           unat (2 :: 64 word) + 1 \<le> cols (eigen_vectors sample_measures)"
    by (simp add: sample_measures_def)
  have c: "\<not> (3 \<le> rows (eigen_vectors sample_measures) \<and>
              unat (3 :: 64 word) + 1 \<le> cols (eigen_vectors sample_measures))"
    by (simp add: sample_measures_def)
  show ?thesis
    using a b c getVector_unchecked [OF a, of 2 0] getVector_unchecked [OF a, of 3 0]
    by blast
qed

section \<open>Runs of pick\_and\_place\_node\<close>

lemma pnp_main_failure:
  assumes "error_code_val (generatePlan env (locked_scene env) pnp_request) \<noteq> SUCCESS"
  shows "pnp_main env =
           (0, pnp_initialization
               @ [LockSceneRead, GeneratePlan pnp_request, UnlockSceneRead,
                  RosError ''Could not compute plan successfully'' []])"
  using assms by (simp add: pnp_main_def pnp_plan_scope_def)

lemma pnp_main_success:
  assumes "error_code_val (generatePlan env (locked_scene env) pnp_request) = SUCCESS"
  shows "pnp_main env =
           (0, pnp_initialization
               @ [LockSceneRead, GeneratePlan pnp_request, UnlockSceneRead]
               @ pnp_visualize (generatePlan env (locked_scene env) pnp_request)
               @ pnp_execute env (generatePlan env (locked_scene env) pnp_request)
               @ promptAnyInput @ [Cout (''Finished!'' @ [CHR 0x0A])])"
  using assms by (simp add: pnp_main_def pnp_plan_scope_def getMessage_def Let_def)

lemma printControllers_quiet:
  "\<forall>e \<in> set (printControllers cm). is_console e \<or> is_controller_query e"
  by (auto simp: printControllers_def is_console_def is_controller_query_def Let_def)

lemma lock_scoped_quiet:
  "\<forall>e \<in> set xs. is_console e \<or> is_controller_query e \<Longrightarrow>
   lock_scoped 0 (xs @ ys) = lock_scoped 0 ys"
  by (induction xs) (auto simp: is_console_def is_controller_query_def split: effect.splits)

lemma filter_none: "\<forall>e \<in> set xs. \<not> P e \<Longrightarrow> filter P xs = []"
  by (induction xs) auto

lemma printControllers_no_lock_planning:
  "filter (\<lambda>e. is_lock e \<or> is_planning e) (printControllers cm) = []"
  by (rule filter_none)
     (auto simp: printControllers_def is_lock_def is_planning_def Let_def)

lemma printControllers_no_display_execution:
  "filter (\<lambda>e. is_trajectory_display e \<or> is_execution e \<or> is_status_report e)
     (printControllers cm) = []"
  by (rule filter_none)
     (auto simp: printControllers_def is_trajectory_display_def is_execution_def
        is_status_report_def Let_def)

lemma printControllers_queries:
  "filter (\<lambda>e. is_controller_query e \<or> is_execution e) (printControllers cm) =
     [GetActiveControllers, GetControllersList]"
proof -
  have "filter (\<lambda>e. is_controller_query e \<or> is_execution e) (map (\<lambda>c. Cout (f c)) xs) = []"
    for f :: "string \<Rightarrow> string" and xs
    by (rule filter_none) (auto simp: is_controller_query_def is_execution_def)
  then show ?thesis
    by (simp add: printControllers_def Let_def is_controller_query_def is_execution_def)
qed

lemma printControllers_not_console:
  "filter (\<lambda>e. \<not> is_console e) (printControllers cm) =
     [GetActiveControllers, GetControllersList]"
proof -
  have "filter (\<lambda>e. \<not> is_console e) (map (\<lambda>c. Cout (f c)) xs) = []"
    for f :: "string \<Rightarrow> string" and xs
    by (rule filter_none) (auto simp: is_console_def)
  then show ?thesis
    by (simp add: printControllers_def Let_def is_console_def)
qed

lemma printControllers_requests: "requests_planned (printControllers cm @ es) = requests_planned es"
proof -
  have "requests_planned (map (\<lambda>c. Cout (f c)) xs @ es) = requests_planned es"
    for f :: "string \<Rightarrow> string" and xs es
    by (induction xs) simp_all
  then show ?thesis
    by (simp add: printControllers_def Let_def)
qed


lemma pnp_success_filter:
  assumes "error_code_val (generatePlan env (locked_scene env) pnp_request) = SUCCESS"
  shows "filter P (snd (pnp_main env)) =
           filter P pnp_initialization
           @ filter P [LockSceneRead, GeneratePlan pnp_request, UnlockSceneRead]
           @ filter P (pnp_visualize (generatePlan env (locked_scene env) pnp_request))
           @ filter P (printControllers (controller_manager env))
           @ filter P [Push (trajectory (generatePlan env (locked_scene env) pnp_request)),
                       ExecuteAndWait,
                       RosInfo ''Status: %s'' [S (asString (executeAndWait env))]]
           @ filter P promptAnyInput
           @ filter P [Cout (''Finished!'' @ [CHR 0x0A])]"
  by (simp only: pnp_main_success [OF assms] snd_conv filter_append pnp_execute_def Let_def
        append_assoc)

section \<open>Runs of plan\_and\_execute\<close>

lemma tac_main_declined:
  "\<not> promptUserInput env \<Longrightarrow> tac_main env = (0, tac_preparation env)"
  by (simp add: tac_main_def)

lemma tac_main_failure:
  assumes "promptUserInput env"
      and "error_code_val (planner_generatePlan env (tac_request env)) \<noteq> SUCCESS"
  shows "tac_main env =
           (1, tac_preparation env @ tac_planning (tac_request env)
               @ [RosError ''Could not compute plan successfully. Error code: %d''
                    [D (sint (error_code_val (planner_generatePlan env (tac_request env))))]])"
  using assms by (simp add: tac_main_def Let_def)

lemma tac_main_success:
  assumes "promptUserInput env"
      and "error_code_val (planner_generatePlan env (tac_request env)) = SUCCESS"
  shows "tac_main env =
           (0, tac_preparation env @ tac_planning (tac_request env)
               @ [VisualizeTrajectory (planner_generatePlan env (tac_request env)) ''planned_path'',
                  VisualizeTrajectory (raw_plan_resp env (tac_request env)) ''raw_path'',
                  PromptUserInput, Cout (''Finished!'' @ [CHR 0x0A])])"
  using assms by (simp add: tac_main_def Let_def getMessage_def tac_execution_def)

section \<open>The read lock of the planning scene\<close>

text \<open>
  Claim C1. In every run of \<^verbatim>\<open>pick_and_place_node\<close>, whatever the planner answers,
  the read lock of the planning scene is taken once, held exactly around the one planner
  invocation and given back right after it: every other effect of the run (visualization
  and execution among them) happens with no read lock held, and no lock is held when the
  planning scope is left, so the lock can be taken again after a failed plan.
\<close>

theorem pnp_read_lock_scoped_to_planner:
  "lock_scoped 0 (snd (pnp_main env)) \<and>
   filter (\<lambda>e. is_lock e \<or> is_planning e) (snd (pnp_main env)) =
     [LockSceneRead, GeneratePlan pnp_request, UnlockSceneRead] \<and>
   held_after 0 (snd (pnp_plan_scope env req)) = 0 \<and>
   held_after 0 (pnp_initialization @ snd (pnp_plan_scope env req)) = 0"
proof (cases "error_code_val (generatePlan env (locked_scene env) pnp_request) = SUCCESS")
  case True
  have 1: "lock_scoped 0 (snd (pnp_main env))"
    by (simp add: pnp_main_success [OF True] pnp_initialization_def pnp_visualize_def
        pnp_execute_def promptAnyInput_def lock_scoped_quiet [OF printControllers_quiet])
  have 2: "filter (\<lambda>e. is_lock e \<or> is_planning e) (snd (pnp_main env)) =
     [LockSceneRead, GeneratePlan pnp_request, UnlockSceneRead]"
    unfolding pnp_success_filter [OF True] printControllers_no_lock_planning
    by (simp add: pnp_initialization_def pnp_visualize_def promptAnyInput_def
        is_lock_def is_planning_def)
  show ?thesis using 1 2 by (simp add: pnp_plan_scope_def pnp_initialization_def)
next
  case False
  have 1: "lock_scoped 0 (snd (pnp_main env))"
    by (simp add: pnp_main_failure [OF False] pnp_initialization_def)
  have 2: "filter (\<lambda>e. is_lock e \<or> is_planning e) (snd (pnp_main env)) =
     [LockSceneRead, GeneratePlan pnp_request, UnlockSceneRead]"
    by (simp add: pnp_main_failure [OF False] pnp_initialization_def
        is_lock_def is_planning_def)
  show ?thesis using 1 2 by (simp add: pnp_plan_scope_def pnp_initialization_def)
qed

theorem pnp_read_lock_scoped_to_planner_witness:
  "error_code_val (generatePlan (sample_pnp_env (- 1)) (locked_scene (sample_pnp_env (- 1)))
     pnp_request) \<noteq> SUCCESS \<and>
   lock_scoped 0 (snd (pnp_main (sample_pnp_env (- 1)))) \<and>
   held_after 0 (snd (pnp_plan_scope (sample_pnp_env (- 1)) pnp_request)) = 0"
  using pnp_read_lock_scoped_to_planner [of "sample_pnp_env (- 1)" pnp_request]
  by (simp add: sample_pnp_env_def sample_response_def SUCCESS_def)

section \<open>A planning failure\<close>

text \<open>
  Against claim C2 as stated: two runs of \<^verbatim>\<open>pick_and_place_node\<close> whose planners report
  the distinct failure codes \<open>-1\<close> and \<open>-2\<close> are the same run, exit status and effects,
  so what the program returns and reports does not carry the planner's code.
\<close>

theorem pnp_failure_report_without_code:
  "(- 1 :: 32 word) \<noteq> SUCCESS \<and> (- 2 :: 32 word) \<noteq> SUCCESS \<and> (- 1 :: 32 word) \<noteq> - 2 \<and>
   error_code_val (generatePlan (sample_pnp_env (- 1)) (locked_scene (sample_pnp_env (- 1)))
     pnp_request) = - 1 \<and>
   error_code_val (generatePlan (sample_pnp_env (- 2)) (locked_scene (sample_pnp_env (- 2)))
     pnp_request) = - 2 \<and>
   pnp_main (sample_pnp_env (- 1)) = pnp_main (sample_pnp_env (- 2))"
  by (simp add: pnp_main_def pnp_plan_scope_def sample_pnp_env_def sample_response_def
      SUCCESS_def)

text \<open>
  Claim C2, amended. When the planner reports a status other than \<open>SUCCESS\<close>, both
  programs return from \<^verbatim>\<open>main\<close> right after an error report. In
  \<^verbatim>\<open>pick_and_place_node\<close> nothing is visualized or executed and no read lock is left
  held. In \<^verbatim>\<open>plan_and_execute\<close> the exit status is 1, the error report carries the
  planner's code, and no trajectory is displayed or executed.
\<close>

theorem planning_failure_stops_pipeline:
  "(error_code_val (generatePlan env (locked_scene env) pnp_request) \<noteq> SUCCESS \<longrightarrow>
      is_error_report (last (snd (pnp_main env))) \<and>
      filter (\<lambda>e. is_visualization e \<or> is_execution e) (snd (pnp_main env)) = [] \<and>
      held_after 0 (snd (pnp_main env)) = 0) \<and>
   (promptUserInput tenv \<and>
    error_code_val (planner_generatePlan tenv (tac_request tenv)) \<noteq> SUCCESS \<longrightarrow>
      fst (tac_main tenv) = 1 \<and>
      last (snd (tac_main tenv)) =
        RosError ''Could not compute plan successfully. Error code: %d''
          [D (sint (error_code_val (planner_generatePlan tenv (tac_request tenv))))] \<and>
      filter (\<lambda>e. is_trajectory_display e \<or> is_execution e) (snd (tac_main tenv)) = [])"
proof (intro conjI impI)
  assume f: "error_code_val (generatePlan env (locked_scene env) pnp_request) \<noteq> SUCCESS"
  show "is_error_report (last (snd (pnp_main env)))"
    by (simp add: pnp_main_failure [OF f] is_error_report_def)
  show "filter (\<lambda>e. is_visualization e \<or> is_execution e) (snd (pnp_main env)) = []"
    by (simp add: pnp_main_failure [OF f] pnp_initialization_def is_visualization_def
        is_execution_def)
  show "held_after 0 (snd (pnp_main env)) = 0"
    by (simp add: pnp_main_failure [OF f] pnp_initialization_def)
next
  assume "promptUserInput tenv \<and>
    error_code_val (planner_generatePlan tenv (tac_request tenv)) \<noteq> SUCCESS"
  then have p: "promptUserInput tenv"
    and f: "error_code_val (planner_generatePlan tenv (tac_request tenv)) \<noteq> SUCCESS"
    by simp_all
  show "fst (tac_main tenv) = 1"
    by (simp add: tac_main_failure [OF p f])
  show "last (snd (tac_main tenv)) =
        RosError ''Could not compute plan successfully. Error code: %d''
          [D (sint (error_code_val (planner_generatePlan tenv (tac_request tenv))))]"
    by (simp add: tac_main_failure [OF p f])
  show "filter (\<lambda>e. is_trajectory_display e \<or> is_execution e) (snd (tac_main tenv)) = []"
    by (simp add: tac_main_failure [OF p f] tac_preparation_def tac_planning_def
        is_trajectory_display_def is_execution_def)
qed

theorem planning_failure_stops_pipeline_witness:
  "error_code_val (generatePlan (sample_pnp_env (- 1)) (locked_scene (sample_pnp_env (- 1)))
     pnp_request) \<noteq> SUCCESS \<and>
   promptUserInput (sample_tac_env True (- 2)) \<and>
   error_code_val (planner_generatePlan (sample_tac_env True (- 2))
     (tac_request (sample_tac_env True (- 2)))) \<noteq> SUCCESS \<and>
   is_error_report (last (snd (pnp_main (sample_pnp_env (- 1))))) \<and>
   fst (tac_main (sample_tac_env True (- 2))) = 1 \<and>
   last (snd (tac_main (sample_tac_env True (- 2)))) =
     RosError ''Could not compute plan successfully. Error code: %d'' [D (- 2)]"
  using planning_failure_stops_pipeline [of "sample_pnp_env (- 1)" "sample_tac_env True (- 2)"]
  by (simp add: sample_pnp_env_def sample_tac_env_def sample_response_def SUCCESS_def)

section \<open>A planning success\<close>

lemma printControllers_phases:
  "phases_from accepted status p (printControllers cm @ es) = phases_from accepted status p es"
proof -
  have "phases_from accepted status p (map (\<lambda>c. Cout (f c)) xs @ es') =
          phases_from accepted status p es'"
    for f :: "string \<Rightarrow> string" and xs es'
    by (induction xs) simp_all
  then show ?thesis
    by (simp add: printControllers_def Let_def)
qed

lemma pnp_success_phases:
  assumes "error_code_val (generatePlan env (locked_scene env) pnp_request) = SUCCESS"
  shows "execution_phases accepted status (snd (pnp_main env)) =
           PhasePending #
           (if accepted
            then PhaseRunning # (if is_terminal status then [PhaseTerminal status] else [])
            else [])"
  by (simp add: execution_phases_def pnp_main_success [OF assms] pnp_initialization_def
      pnp_visualize_def pnp_execute_def promptAnyInput_def printControllers_phases)

text \<open>
  Against claim C3 as stated, three runs in which planning succeeds. A run of
  \<^verbatim>\<open>plan_and_execute\<close> in which the user confirms finishes without handing anything to a
  controller, because its execution block is guarded by a flag that is set to false: the
  execution stays pending. A run of \<^verbatim>\<open>pick_and_place_node\<close> whose \<^verbatim>\<open>push\<close> is turned
  down still calls \<^verbatim>\<open>executeAndWait\<close> and finishes, the result of \<^verbatim>\<open>push\<close> being
  dropped: the execution stays pending. A run of \<^verbatim>\<open>pick_and_place_node\<close> whose
  \<^verbatim>\<open>executeAndWait\<close> comes back with \<open>RUNNING\<close> logs that status and finishes, the status
  being printed and not inspected: the execution reaches no terminal status.
\<close>

theorem planning_success_without_terminal_execution:
  "promptUserInput (sample_tac_env True 1) \<and>
   error_code_val (planner_generatePlan (sample_tac_env True 1)
     (tac_request (sample_tac_env True 1))) = SUCCESS \<and>
   filter is_execution (snd (tac_main (sample_tac_env True 1))) = [] \<and>
   execution_phases True SUCCEEDED (snd (tac_main (sample_tac_env True 1))) = [PhasePending] \<and>
   last (snd (tac_main (sample_tac_env True 1))) = Cout (''Finished!'' @ [CHR 0x0A]) \<and>
   error_code_val
     (generatePlan ((sample_pnp_env 1)\<lparr>push_accepted := False\<rparr>)
        (locked_scene ((sample_pnp_env 1)\<lparr>push_accepted := False\<rparr>)) pnp_request) = SUCCESS \<and>
   pnp_execution_phases ((sample_pnp_env 1)\<lparr>push_accepted := False\<rparr>) = [PhasePending] \<and>
   filter (\<lambda>e. is_execution e \<or> is_status_report e)
     (snd (pnp_main ((sample_pnp_env 1)\<lparr>push_accepted := False\<rparr>))) =
     [Push sample_trajectory, ExecuteAndWait, RosInfo ''Status: %s'' [S ''SUCCEEDED'']] \<and>
   error_code_val
     (generatePlan ((sample_pnp_env 1)\<lparr>executeAndWait := RUNNING\<rparr>)
        (locked_scene ((sample_pnp_env 1)\<lparr>executeAndWait := RUNNING\<rparr>)) pnp_request) = SUCCESS \<and>
   pnp_execution_phases ((sample_pnp_env 1)\<lparr>executeAndWait := RUNNING\<rparr>) =
     [PhasePending, PhaseRunning] \<and>
   filter (\<lambda>e. is_execution e \<or> is_status_report e)
     (snd (pnp_main ((sample_pnp_env 1)\<lparr>executeAndWait := RUNNING\<rparr>))) =
     [Push sample_trajectory, ExecuteAndWait, RosInfo ''Status: %s'' [S ''RUNNING'']] \<and>
   last (snd (pnp_main ((sample_pnp_env 1)\<lparr>executeAndWait := RUNNING\<rparr>))) =
     Cout (''Finished!'' @ [CHR 0x0A])"
proof -
  let ?t = "sample_tac_env True 1"
  let ?b = "(sample_pnp_env 1)\<lparr>push_accepted := False\<rparr>"
  let ?c = "(sample_pnp_env 1)\<lparr>executeAndWait := RUNNING\<rparr>"
  have tp: "promptUserInput ?t" by (simp add: sample_tac_env_def)
  have ts: "error_code_val (planner_generatePlan ?t (tac_request ?t)) = SUCCESS"
    by (simp add: sample_tac_env_def sample_response_def SUCCESS_def)
  have t1: "filter is_execution (snd (tac_main ?t)) = []"
    by (simp add: tac_main_success [OF tp ts] tac_preparation_def tac_planning_def
        is_execution_def)
  have t2: "execution_phases True SUCCEEDED (snd (tac_main ?t)) = [PhasePending]"
    by (simp add: execution_phases_def tac_main_success [OF tp ts] tac_preparation_def
        tac_planning_def)
  have t3: "last (snd (tac_main ?t)) = Cout (''Finished!'' @ [CHR 0x0A])"
    by (simp add: tac_main_success [OF tp ts])
  have bs: "error_code_val (generatePlan ?b (locked_scene ?b) pnp_request) = SUCCESS"
    by (simp add: sample_pnp_env_def sample_response_def SUCCESS_def)
  have cs: "error_code_val (generatePlan ?c (locked_scene ?c) pnp_request) = SUCCESS"
    by (simp add: sample_pnp_env_def sample_response_def SUCCESS_def)
  have no_report: "filter (\<lambda>e. is_execution e \<or> is_status_report e) (printControllers cm) = []"
    for cm
    by (rule filter_none)
       (auto simp: printControllers_def is_execution_def is_status_report_def Let_def)
  have bv: "push_accepted ?b = False" "executeAndWait ?b = SUCCEEDED"
    by (simp_all add: sample_pnp_env_def)
  have b1: "pnp_execution_phases ?b = [PhasePending]"
    unfolding pnp_execution_phases_def pnp_success_phases [OF bs] bv by simp
  have b2: "filter (\<lambda>e. is_execution e \<or> is_status_report e) (snd (pnp_main ?b)) =
     [Push sample_trajectory, ExecuteAndWait, RosInfo ''Status: %s'' [S ''SUCCEEDED'']]"
    unfolding pnp_success_filter [OF bs] no_report
    by (simp add: pnp_initialization_def pnp_visualize_def promptAnyInput_def
        is_execution_def is_status_report_def sample_pnp_env_def sample_response_def)
  have cv: "push_accepted ?c = True" "executeAndWait ?c = RUNNING"
    by (simp_all add: sample_pnp_env_def)
  have c1: "pnp_execution_phases ?c = [PhasePending, PhaseRunning]"
    unfolding pnp_execution_phases_def pnp_success_phases [OF cs] cv
    by (simp add: is_terminal_def)
  have c2: "filter (\<lambda>e. is_execution e \<or> is_status_report e) (snd (pnp_main ?c)) =
     [Push sample_trajectory, ExecuteAndWait, RosInfo ''Status: %s'' [S ''RUNNING'']]"
    unfolding pnp_success_filter [OF cs] no_report
    by (simp add: pnp_initialization_def pnp_visualize_def promptAnyInput_def
        is_execution_def is_status_report_def sample_pnp_env_def sample_response_def)
  have c3: "last (snd (pnp_main ?c)) = Cout (''Finished!'' @ [CHR 0x0A])"
    by (simp add: pnp_main_success [OF cs])
  from tp ts t1 t2 t3 bs b1 b2 cs c1 c2 c3 show ?thesis by blast
qed

text \<open>
  Claim C3, amended. When planning succeeds, \<^verbatim>\<open>pick_and_place_node\<close> publishes the
  trajectory to the display, then pushes that same trajectory to the execution manager,
  calls \<^verbatim>\<open>executeAndWait\<close> once and logs the status it returned, and returns 0 after
  printing that it finished; when the backend accepts the push and \<^verbatim>\<open>executeAndWait\<close>
  returns a terminal status, the execution has gone from pending to running to that
  terminal status before the program finishes. \<^verbatim>\<open>plan_and_execute\<close> displays the planned
  and the raw trajectory and returns 0 without executing anything: whatever a backend
  would answer, the execution stays pending.
\<close>

theorem planning_success_continues:
  "(error_code_val (generatePlan env (locked_scene env) pnp_request) = SUCCESS \<longrightarrow>
      filter (\<lambda>e. is_trajectory_display e \<or> is_execution e \<or> is_status_report e)
        (snd (pnp_main env)) =
        [PublishDisplayTrajectory
           (trajectory_start (generatePlan env (locked_scene env) pnp_request))
           [trajectory (generatePlan env (locked_scene env) pnp_request)],
         PublishTrajectoryLine (trajectory (generatePlan env (locked_scene env) pnp_request)),
         Push (trajectory (generatePlan env (locked_scene env) pnp_request)),
         ExecuteAndWait,
         RosInfo ''Status: %s'' [S (asString (executeAndWait env))]] \<and>
      fst (pnp_main env) = 0 \<and>
      last (snd (pnp_main env)) = Cout (''Finished!'' @ [CHR 0x0A]) \<and>
      (push_accepted env \<and> is_terminal (executeAndWait env) \<longrightarrow>
         pnp_execution_phases env =
           [PhasePending, PhaseRunning, PhaseTerminal (executeAndWait env)])) \<and>
   (promptUserInput tenv \<and>
    error_code_val (planner_generatePlan tenv (tac_request tenv)) = SUCCESS \<longrightarrow>
      filter (\<lambda>e. is_trajectory_display e \<or> is_execution e) (snd (tac_main tenv)) =
        [VisualizeTrajectory (planner_generatePlan tenv (tac_request tenv)) ''planned_path'',
         VisualizeTrajectory (raw_plan_resp tenv (tac_request tenv)) ''raw_path''] \<and>
      fst (tac_main tenv) = 0 \<and>
      last (snd (tac_main tenv)) = Cout (''Finished!'' @ [CHR 0x0A]) \<and>
      execution_phases accepted status (snd (tac_main tenv)) = [PhasePending])"
proof (intro conjI impI)
  assume s: "error_code_val (generatePlan env (locked_scene env) pnp_request) = SUCCESS"
  show "filter (\<lambda>e. is_trajectory_display e \<or> is_execution e \<or> is_status_report e)
        (snd (pnp_main env)) =
        [PublishDisplayTrajectory
           (trajectory_start (generatePlan env (locked_scene env) pnp_request))
           [trajectory (generatePlan env (locked_scene env) pnp_request)],
         PublishTrajectoryLine (trajectory (generatePlan env (locked_scene env) pnp_request)),
         Push (trajectory (generatePlan env (locked_scene env) pnp_request)),
         ExecuteAndWait,
         RosInfo ''Status: %s'' [S (asString (executeAndWait env))]]"
    unfolding pnp_success_filter [OF s] printControllers_no_display_execution
    by (simp add: pnp_initialization_def pnp_visualize_def promptAnyInput_def
        is_trajectory_display_def is_execution_def is_status_report_def)
  show "fst (pnp_main env) = 0"
    by (simp add: pnp_main_success [OF s])
  show "last (snd (pnp_main env)) = Cout (''Finished!'' @ [CHR 0x0A])"
    by (simp add: pnp_main_success [OF s])
  assume "push_accepted env \<and> is_terminal (executeAndWait env)"
  then show "pnp_execution_phases env =
           [PhasePending, PhaseRunning, PhaseTerminal (executeAndWait env)]"
    by (simp add: pnp_execution_phases_def pnp_success_phases [OF s])
next
  assume "promptUserInput tenv \<and>
    error_code_val (planner_generatePlan tenv (tac_request tenv)) = SUCCESS"
  then have p: "promptUserInput tenv"
    and s: "error_code_val (planner_generatePlan tenv (tac_request tenv)) = SUCCESS"
    by simp_all
  show "filter (\<lambda>e. is_trajectory_display e \<or> is_execution e) (snd (tac_main tenv)) =
        [VisualizeTrajectory (planner_generatePlan tenv (tac_request tenv)) ''planned_path'',
         VisualizeTrajectory (raw_plan_resp tenv (tac_request tenv)) ''raw_path'']"
    by (simp add: tac_main_success [OF p s] tac_preparation_def tac_planning_def
        is_trajectory_display_def is_execution_def)
  show "fst (tac_main tenv) = 0"
    by (simp add: tac_main_success [OF p s])
  show "last (snd (tac_main tenv)) = Cout (''Finished!'' @ [CHR 0x0A])"
    by (simp add: tac_main_success [OF p s])
  show "execution_phases accepted status (snd (tac_main tenv)) = [PhasePending]"
    by (simp add: execution_phases_def tac_main_success [OF p s] tac_preparation_def
        tac_planning_def)
qed

theorem planning_success_continues_witness:
  "error_code_val (generatePlan (sample_pnp_env 1) (locked_scene (sample_pnp_env 1))
     pnp_request) = SUCCESS \<and>
   push_accepted (sample_pnp_env 1) \<and> is_terminal (executeAndWait (sample_pnp_env 1)) \<and>
   promptUserInput (sample_tac_env True 1) \<and>
   error_code_val (planner_generatePlan (sample_tac_env True 1)
     (tac_request (sample_tac_env True 1))) = SUCCESS \<and>
   filter (\<lambda>e. is_trajectory_display e \<or> is_execution e \<or> is_status_report e)
     (snd (pnp_main (sample_pnp_env 1))) =
     [PublishDisplayTrajectory [0, 0] [sample_trajectory],
      PublishTrajectoryLine sample_trajectory,
      Push sample_trajectory, ExecuteAndWait, RosInfo ''Status: %s'' [S ''SUCCEEDED'']] \<and>
   pnp_execution_phases (sample_pnp_env 1) =
     [PhasePending, PhaseRunning, PhaseTerminal SUCCEEDED] \<and>
   filter (\<lambda>e. is_trajectory_display e \<or> is_execution e)
     (snd (tac_main (sample_tac_env True 1))) =
     [VisualizeTrajectory (sample_response 1) ''planned_path'',
      VisualizeTrajectory (sample_response 1) ''raw_path''] \<and>
   execution_phases True SUCCEEDED (snd (tac_main (sample_tac_env True 1))) = [PhasePending]"
  using planning_success_continues [where env = "sample_pnp_env 1"
      and tenv = "sample_tac_env True 1" and accepted = True and status = SUCCEEDED]
  by (simp add: sample_pnp_env_def sample_tac_env_def sample_response_def SUCCESS_def
      is_terminal_def)

section \<open>The request\<close>

text \<open>
  Against claim C8 as stated: the request that \<^verbatim>\<open>pick_and_place_node\<close> plans for has
  both scaling factors at 0, the value of a field that is never assigned.
\<close>

theorem pnp_request_without_scaling_factors:
  "requests_planned (snd (pnp_main (sample_pnp_env 1))) = [pnp_request] \<and>
   max_velocity_scaling_factor pnp_request = 0 \<and>
   max_acceleration_scaling_factor pnp_request = 0 \<and>
   \<not> carries_all pnp_request"
proof -
  have s: "error_code_val (generatePlan (sample_pnp_env 1) (locked_scene (sample_pnp_env 1))
     pnp_request) = SUCCESS"
    by (simp add: sample_pnp_env_def sample_response_def SUCCESS_def)
  have "requests_planned (snd (pnp_main (sample_pnp_env 1))) = [pnp_request]"
    by (simp add: pnp_main_success [OF s] pnp_initialization_def pnp_visualize_def
        pnp_execute_def promptAnyInput_def printControllers_requests)
  then show ?thesis
    by (simp add: carries_all_def pnp_request_def MotionPlanRequest_default_def Let_def)
qed

text \<open>
  Claim C8, amended. Each program builds one request and hands exactly that request to
  planning, before the planner runs (\<^verbatim>\<open>plan_and_execute\<close> only when the user confirms).
  The request of \<^verbatim>\<open>pick_and_place_node\<close> carries the group \<open>panda_arm\<close>, one pose
  goal, the planner \<open>panda_arm[EST]\<close> and a time budget of 5, and leaves both scaling
  factors unassigned. The request of \<^verbatim>\<open>plan_and_execute\<close> carries the group name and
  planner identifier its collaborators return, the joint goal as its last goal, a time
  budget of 10 and both scaling factors 0.5.
\<close>

theorem request_built_once_before_planning:
  "requests_planned (snd (pnp_main env)) = [pnp_request] \<and>
   filter is_planning (snd (pnp_main env)) = [GeneratePlan pnp_request] \<and>
   group_name pnp_request = ''panda_arm'' \<and>
   planner_id pnp_request = ''panda_arm[EST]'' \<and>
   goal_constraints pnp_request =
     [GoalConstraints ''panda_link8'' pnp_pose [0.01, 0.01, 0.01] [0.01, 0.01, 0.01]] \<and>
   allowed_planning_time pnp_request = 5 \<and>
   max_velocity_scaling_factor pnp_request = 0 \<and>
   max_acceleration_scaling_factor pnp_request = 0 \<and>
   (promptUserInput tenv \<longrightarrow>
      requests_planned (snd (tac_main tenv)) = [tac_request tenv] \<and>
      filter is_planning (snd (tac_main tenv)) =
        [CreatePlanningContext (tac_request tenv), PlannerGeneratePlan]) \<and>
   (\<not> promptUserInput tenv \<longrightarrow> filter is_planning (snd (tac_main tenv)) = []) \<and>
   group_name (tac_request tenv) = getGroupName tenv \<and>
   planner_id (tac_request tenv) = getPlannerId tenv \<and>
   goal_constraints (tac_request tenv) \<noteq> [] \<and>
   last (goal_constraints (tac_request tenv)) = createJointGoal tenv \<and>
   allowed_planning_time (tac_request tenv) = 10 \<and>
   max_velocity_scaling_factor (tac_request tenv) = 0.5 \<and>
   max_acceleration_scaling_factor (tac_request tenv) = 0.5"
proof -
  let ?ok = "error_code_val (generatePlan env (locked_scene env) pnp_request) = SUCCESS"
  have 1: "requests_planned (snd (pnp_main env)) = [pnp_request]"
  proof (cases ?ok)
    case True
    show ?thesis
      by (simp add: pnp_main_success [OF True] pnp_initialization_def pnp_visualize_def
          pnp_execute_def promptAnyInput_def printControllers_requests)
  next
    case False
    show ?thesis
      by (simp add: pnp_main_failure [OF False] pnp_initialization_def)
  qed
  have 2: "filter is_planning (snd (pnp_main env)) = [GeneratePlan pnp_request]"
  proof (cases ?ok)
    case True
    have "filter is_planning (printControllers (controller_manager env)) = []"
      by (rule filter_none) (auto simp: printControllers_def is_planning_def Let_def)
    then show ?thesis
      unfolding pnp_success_filter [OF True]
      by (simp add: pnp_initialization_def pnp_visualize_def promptAnyInput_def
          is_planning_def)
  next
    case False
    show ?thesis
      by (simp add: pnp_main_failure [OF False] pnp_initialization_def is_planning_def)
  qed
  have 3: "group_name pnp_request = ''panda_arm'' \<and>
   planner_id pnp_request = ''panda_arm[EST]'' \<and>
   goal_constraints pnp_request =
     [GoalConstraints ''panda_link8'' pnp_pose [0.01, 0.01, 0.01] [0.01, 0.01, 0.01]] \<and>
   allowed_planning_time pnp_request = 5 \<and>
   max_velocity_scaling_factor pnp_request = 0 \<and>
   max_acceleration_scaling_factor pnp_request = 0"
    by (simp add: pnp_request_def MotionPlanRequest_default_def Let_def numeral_3_eq_3)
  have 4: "requests_planned (snd (tac_main tenv)) = [tac_request tenv] \<and>
      filter is_planning (snd (tac_main tenv)) =
        [CreatePlanningContext (tac_request tenv), PlannerGeneratePlan]"
    if p: "promptUserInput tenv"
  proof (cases "error_code_val (planner_generatePlan tenv (tac_request tenv)) = SUCCESS")
    case True
    show ?thesis
      by (simp add: tac_main_success [OF p True] tac_preparation_def tac_planning_def
          is_planning_def)
  next
    case False
    show ?thesis
      by (simp add: tac_main_failure [OF p False] tac_preparation_def tac_planning_def
          is_planning_def)
  qed
  have 5: "filter is_planning (snd (tac_main tenv)) = []" if "\<not> promptUserInput tenv"
    by (simp add: tac_main_declined [OF that] tac_preparation_def is_planning_def)
  have 6: "group_name (tac_request tenv) = getGroupName tenv \<and>
   planner_id (tac_request tenv) = getPlannerId tenv \<and>
   goal_constraints (tac_request tenv) \<noteq> [] \<and>
   last (goal_constraints (tac_request tenv)) = createJointGoal tenv \<and>
   allowed_planning_time (tac_request tenv) = 10 \<and>
   max_velocity_scaling_factor (tac_request tenv) = 0.5 \<and>
   max_acceleration_scaling_factor (tac_request tenv) = 0.5"
    by (simp add: tac_request_def tac_goal_request_def Let_def)
  from 1 2 3 4 5 6 show ?thesis by blast
qed

theorem request_built_once_before_planning_witness:
  "promptUserInput (sample_tac_env True 1) \<and> \<not> promptUserInput (sample_tac_env False 1) \<and>
   requests_planned (snd (tac_main (sample_tac_env True 1))) =
     [tac_request (sample_tac_env True 1)] \<and>
   filter is_planning (snd (tac_main (sample_tac_env False 1))) = [] \<and>
   carries_all (tac_request (sample_tac_env True 1))"
proof -
  have c: "carries_all (tac_request (sample_tac_env True 1))"
    using request_built_once_before_planning [of "sample_pnp_env 1" "sample_tac_env True 1"]
    by (simp add: carries_all_def sample_tac_env_def)
  show ?thesis
    using c request_built_once_before_planning [of "sample_pnp_env 1" "sample_tac_env True 1"]
      request_built_once_before_planning [of "sample_pnp_env 1" "sample_tac_env False 1"]
    by (simp add: sample_tac_env_def)
qed

section \<open>The controller query\<close>

text \<open>
  Claim C10. In \<^verbatim>\<open>pick_and_place_node\<close> the controller lists are only printed: a run
  with any other controller manager has the same exit status and, console output apart,
  the same effects; \<^verbatim>\<open>printControllers\<close> has no effect beyond the two queries and
  console output; and when planning succeeds the two queries come before the push, which
  is followed by \<^verbatim>\<open>executeAndWait\<close>, whatever the lists hold.
\<close>

theorem controller_query_is_diagnostic_only:
  "filter (\<lambda>e. \<not> is_console e) (snd (pnp_main (env\<lparr>controller_manager := cm\<rparr>))) =
     filter (\<lambda>e. \<not> is_console e) (snd (pnp_main env)) \<and>
   fst (pnp_main (env\<lparr>controller_manager := cm\<rparr>)) = fst (pnp_main env) \<and>
   filter (\<lambda>e. \<not> is_console e) (printControllers cm) =
     [GetActiveControllers, GetControllersList] \<and>
   (error_code_val (generatePlan env (locked_scene env) pnp_request) = SUCCESS \<longrightarrow>
      filter (\<lambda>e. is_controller_query e \<or> is_execution e) (snd (pnp_main env)) =
        [GetActiveControllers, GetControllersList,
         Push (trajectory (generatePlan env (locked_scene env) pnp_request)),
         ExecuteAndWait])"
proof -
  let ?env' = "env\<lparr>controller_manager := cm\<rparr>"
  let ?ok = "error_code_val (generatePlan env (locked_scene env) pnp_request) = SUCCESS"
  have same: "error_code_val (generatePlan ?env' (locked_scene ?env') pnp_request) =
      error_code_val (generatePlan env (locked_scene env) pnp_request)"
    by simp
  have 1: "filter (\<lambda>e. \<not> is_console e) (snd (pnp_main ?env')) =
     filter (\<lambda>e. \<not> is_console e) (snd (pnp_main env))"
  proof (cases ?ok)
    case True
    then have True': "error_code_val (generatePlan ?env' (locked_scene ?env') pnp_request) = SUCCESS"
      by simp
    show ?thesis
      unfolding pnp_success_filter [OF True] pnp_success_filter [OF True']
        printControllers_not_console
      by simp
  next
    case False
    then have False': "error_code_val (generatePlan ?env' (locked_scene ?env') pnp_request) \<noteq> SUCCESS"
      by simp
    show ?thesis
      by (simp only: pnp_main_failure [OF False] pnp_main_failure [OF False'])
  qed
  have 2: "fst (pnp_main ?env') = fst (pnp_main env)"
  proof (cases ?ok)
    case True
    then have True': "error_code_val (generatePlan ?env' (locked_scene ?env') pnp_request) = SUCCESS"
      by simp
    show ?thesis
      by (simp only: pnp_main_success [OF True] pnp_main_success [OF True'] fst_conv)
  next
    case False
    then have False': "error_code_val (generatePlan ?env' (locked_scene ?env') pnp_request) \<noteq> SUCCESS"
      by simp
    show ?thesis
      by (simp only: pnp_main_failure [OF False] pnp_main_failure [OF False'] fst_conv)
  qed
  have 3: "filter (\<lambda>e. is_controller_query e \<or> is_execution e) (snd (pnp_main env)) =
        [GetActiveControllers, GetControllersList,
         Push (trajectory (generatePlan env (locked_scene env) pnp_request)),
         ExecuteAndWait]" if s: ?ok
    unfolding pnp_success_filter [OF s] printControllers_queries
    by (simp add: pnp_initialization_def pnp_visualize_def promptAnyInput_def
        is_controller_query_def is_execution_def)
  from 1 2 3 printControllers_not_console [of cm] show ?thesis by blast
qed

theorem controller_query_is_diagnostic_only_witness:
  "error_code_val (generatePlan (sample_pnp_env 1) (locked_scene (sample_pnp_env 1))
     pnp_request) = SUCCESS \<and>
   filter (\<lambda>e. \<not> is_console e)
     (snd (pnp_main ((sample_pnp_env 1)
        \<lparr>controller_manager := \<lparr>getActiveControllers = [], getControllersList = []\<rparr>\<rparr>))) =
     filter (\<lambda>e. \<not> is_console e) (snd (pnp_main (sample_pnp_env 1))) \<and>
   filter (\<lambda>e. is_controller_query e \<or> is_execution e) (snd (pnp_main (sample_pnp_env 1))) =
     [GetActiveControllers, GetControllersList, Push sample_trajectory, ExecuteAndWait]"
  using controller_query_is_diagnostic_only [where env = "sample_pnp_env 1"
      and cm = "\<lparr>getActiveControllers = [], getControllersList = []\<rparr>"]
  by (simp add: sample_pnp_env_def sample_response_def SUCCESS_def)

end
